theory Spec2Isabelle
  imports Main "HOL-Library.Word"
begin

unbundle bit_operations_syntax

section \<open>Values of the command layer\<close>

text \<open>
  Go errors are values. The two sentinels the handlers compare against
  (\<open>sql.ErrNoRows\<close>, \<open>ErrSubExists\<close>) are constructors of their own; every other
  failure of a collaborator is \<open>ErrOther\<close> with its text; \<open>WithStack\<close> is
  \<open>errors.WithStack\<close> of pkg/errors, which wraps a non-nil error.
\<close>

datatype error = ErrNoRows | ErrSubExists | ErrOther string | WithStack error

text \<open>A Go panic: \<open>panic(err)\<close>, a nil dereference, or a slice out of range.\<close>

datatype panic = PanicError error | NilDereference | SliceOutOfRange

text \<open>A call either returns its value or panics.\<close>

datatype 'a outcome = Returned 'a | Panicked panic

text \<open>\<open>sql.NullBool\<close>: the tri-state of an overwrite; \<open>Valid = false\<close> is "inherit".\<close>

record NullBool =
  nbBool :: bool
  nbValid :: bool

text \<open>The parts of discordgo's types that the handlers read.\<close>

record User =
  uID :: string
  uBot :: bool

record MessageCreate =
  mContent :: string
  mChannelID :: string
  mGuildID :: string
  mAuthor :: User
  mMentions :: "User list"

record Member =
  memRoles :: "string list"

record Role =
  rolePermissions :: "64 word"

record Guild =
  gID :: string
  gOwnerID :: string

record Application =
  appOwner :: User

record Ready =
  rUser :: User

text \<open>
  Modelled from the spec: the declarations of Feed, Subscription, Overwrite and
  GuildConfig are not among the sources; the fields are the ones the handlers read
  (\<open>sub.ID\<close> is printed with \<open>%d\<close>, \<open>gc.Embeds\<close> and \<open>gc.Webhooks\<close> are the guild-wide
  booleans, the overwrites are \<open>sql.NullBool\<close>).
\<close>

record Feed =
  feedID :: int
  feedURI :: string

record Overwrite =
  owEmbeds :: NullBool
  owWebhooks :: NullBool

record Subscription =
  subID :: int
  subChannelID :: string
  subGuildID :: string
  subFeed :: Feed
  subOverwrite :: Overwrite

record GuildConfig =
  gcContact :: string
  gcEmbeds :: bool
  gcWebhooks :: bool

section \<open>Effects and collaborators\<close>

text \<open>
  What a handler does to the outside world is the list of calls it makes, in order:
  messages handed to the transport, mutating calls of the repository, and lines written
  to the operational log. Reads (\<open>GetSubscription\<close>, \<open>GetGuildConfig\<close>,
  \<open>GetSubscriptions\<close>, the directory lookups) leave no entry.
  \<open>LogErr verb e\<close> is \<open>l.Println(fmt.Sprintf("cmd:%s err:%+v", verb, e))\<close>;
  \<open>LogPanic verb p\<close> is the \<open>pnc:\<close> line followed by \<open>debug.PrintStack()\<close>.
\<close>

datatype effect =
    CallChannelMessageSend string string
  | CallGetOrCreateFeed string
  | CallAddSubscription string string int
  | CallDestroySubscription int
  | CallModifySubscriptionChannel int string
  | CallModifyGuildContact string string
  | CallModifyGuildEmbeds string bool
  | CallModifyGuildWebhooks string bool
  | CallModifyOverwriteEmbeds int NullBool
  | CallModifyOverwriteWebhooks int NullBool
  | CallCreateGuildConfig string string
  | LogErr string error
  | LogPanic string panic

text \<open>
  The chat platform, as the handlers use it (\<open>*discordgo.Session\<close>): the state cache
  (\<open>s.State.Member\<close>, \<open>s.State.Role\<close>, \<open>s.State.Guild\<close>), the live queries
  (\<open>s.GuildMember\<close>, \<open>s.Application\<close>) and the transport. Each is a parameter: its
  answer is whatever the platform gives. The transport's answer may depend on the calls
  made so far.
\<close>

record Session =
  State_Member :: "string \<Rightarrow> string \<Rightarrow> error + Member"
  GuildMember :: "string \<Rightarrow> string \<Rightarrow> error + Member"
  State_Role :: "string \<Rightarrow> string \<Rightarrow> error + Role"
  State_Guild :: "string \<Rightarrow> error + Guild option"
  GetApplication :: "string \<Rightarrow> error + Application"
  ChannelMessageSend :: "effect list \<Rightarrow> string \<Rightarrow> string \<Rightarrow> error option"

text \<open>
  Modelled from the spec: the repository behind \<open>ctx.bot.c\<close> is not among the sources.
  Its operations are parameters with the signatures the handlers call them with; each
  answer may depend on the calls made so far. \<open>AddSubscription\<close> returns a
  subscription together with its error, since the handler reads the subscription when
  the error is \<open>ErrSubExists\<close>.
\<close>

record Controller =
  GetOrCreateFeed :: "effect list \<Rightarrow> string \<Rightarrow> error + Feed"
  AddSubscription :: "effect list \<Rightarrow> string \<Rightarrow> string \<Rightarrow> int \<Rightarrow> Subscription \<times> error option"
  GetSubscription :: "effect list \<Rightarrow> int \<Rightarrow> error + Subscription"
  DestroySubscription :: "effect list \<Rightarrow> int \<Rightarrow> error option"
  GetSubscriptions :: "effect list \<Rightarrow> string \<Rightarrow> error + Subscription list"
  GetGuildConfig :: "effect list \<Rightarrow> string \<Rightarrow> error + GuildConfig"
  ModifySubscriptionChannel :: "effect list \<Rightarrow> int \<Rightarrow> string \<Rightarrow> error option"
  ModifyGuildContact :: "effect list \<Rightarrow> string \<Rightarrow> string \<Rightarrow> error option"
  ModifyGuildEmbeds :: "effect list \<Rightarrow> string \<Rightarrow> bool \<Rightarrow> error option"
  ModifyGuildWebhooks :: "effect list \<Rightarrow> string \<Rightarrow> bool \<Rightarrow> error option"
  ModifyOverwriteEmbeds :: "effect list \<Rightarrow> int \<Rightarrow> NullBool \<Rightarrow> error option"
  ModifyOverwriteWebhooks :: "effect list \<Rightarrow> int \<Rightarrow> NullBool \<Rightarrow> error option"
  CreateGuildConfig :: "effect list \<Rightarrow> string \<Rightarrow> string \<Rightarrow> error option"

record Bot =
  bot_c :: Controller

text \<open>The \<open>context\<close> struct of the source.\<close>

record ctx =
  ctx_bot :: Bot
  ctx_s :: Session
  ctx_m :: MessageCreate
  ctx_args :: "string list"

type_synonym commandHandler = "ctx \<Rightarrow> effect list \<Rightarrow> error option outcome \<times> effect list"

text \<open>
  The package-level variables that \<open>onReady\<close> assigns. \<open>prefix\<close> and \<open>prefixLen\<close>
  are never assigned after their initialisation.
\<close>

record globals =
  mentionPrefix :: string
  mentionPrefixLen :: nat
  owner :: string

definition initial_globals :: globals where
  "initial_globals = \<lparr>mentionPrefix = ''<@0>'', mentionPrefixLen = length ''<@0>'', owner = ''<@0>''\<rparr>"

definition prefix :: string where
  "prefix = ''/feed:''"

definition prefixLen :: nat where
  "prefixLen = length prefix"

section \<open>Library functions the handlers call\<close>

definition isDigit :: "char \<Rightarrow> bool" where
  "isDigit ch = (ch \<in> set ''0123456789'')"

text \<open>
  \<open>strconv.Atoi\<close> on a 64-bit platform: an optional sign, then one or more ASCII
  digits, and a value that fits \<open>int\<close>; anything else is an error.
\<close>

definition digitsVal :: "string \<Rightarrow> nat" where
  "digitsVal ds = foldl (\<lambda>n ch. n * 10 + (of_char ch - 48)) 0 ds"

definition Atoi :: "string \<Rightarrow> int option" where
  "Atoi s =
     (let ds = (if take 1 s = ''-'' \<or> take 1 s = ''+'' then drop 1 s else s) in
      if ds \<noteq> [] \<and> list_all isDigit ds then
        (let v = (if take 1 s = ''-'' then - int (digitsVal ds) else int (digitsVal ds)) in
         if - (2 ^ 63) \<le> v \<and> v < 2 ^ 63 then Some v else None)
      else None)"

text \<open>The verb \<open>%d\<close> of \<open>fmt.Sprintf\<close> on an \<open>int\<close>, and \<open>%v\<close> on a \<open>bool\<close>.\<close>

fun natDigits :: "nat \<Rightarrow> string" where
  "natDigits n =
     (if n < 10 then [''0123456789'' ! n]
      else natDigits (n div 10) @ [''0123456789'' ! (n mod 10)])"

declare natDigits.simps [simp del]

definition fmt_d :: "int \<Rightarrow> string" where
  "fmt_d i = (if i < 0 then CHR ''-'' # natDigits (nat (- i)) else natDigits (nat i))"

definition fmt_v :: "bool \<Rightarrow> string" where
  "fmt_v b = (if b then ''true'' else ''false'')"

text \<open>
  \<open>channelRegex.MatchString\<close> for \<open>regexp.MustCompile(`<#\d+>`)\<close>: the pattern is
  not anchored, so it matches when some suffix of the argument starts with \<open><#\<close>, one
  or more ASCII digits and \<open>>\<close>.
\<close>

definition matchHere :: "string \<Rightarrow> bool" where
  "matchHere s =
     (take 2 s = ''<#'' \<and> dropWhile isDigit (drop 2 s) \<noteq> drop 2 s \<and>
      take 1 (dropWhile isDigit (drop 2 s)) = ''>'')"

fun channelRegex_MatchString :: "string \<Rightarrow> bool" where
  "channelRegex_MatchString [] = False"
| "channelRegex_MatchString (ch # cs) = (matchHere (ch # cs) \<or> channelRegex_MatchString cs)"

text \<open>
  The slice expressions \<open>s[lo:hi]\<close> and \<open>s[lo:]\<close> of a Go string: a panic (here
  \<open>None\<close>) unless \<open>0 \<le> lo \<le> hi \<le> len(s)\<close>.
\<close>

definition slice :: "string \<Rightarrow> int \<Rightarrow> int \<Rightarrow> string option" where
  "slice s lo hi =
     (if 0 \<le> lo \<and> lo \<le> hi \<and> hi \<le> int (length s)
      then Some (take (nat hi - nat lo) (drop (nat lo) s)) else None)"

definition sliceFrom :: "string \<Rightarrow> nat \<Rightarrow> string option" where
  "sliceFrom s lo = (if lo \<le> length s then Some (drop lo s) else None)"

definition HasPrefix :: "string \<Rightarrow> string \<Rightarrow> bool" where
  "HasPrefix s p = (take (length p) s = p)"

text \<open>\<open>strings.Split(content, " ")\<close>: one part more than there are spaces.\<close>

fun splitOn :: "char \<Rightarrow> string \<Rightarrow> string list" where
  "splitOn sep [] = [[]]"
| "splitOn sep (ch # cs) =
     (if ch = sep then [] # splitOn sep cs
      else (case splitOn sep cs of [] \<Rightarrow> [[ch]] | w # ws \<Rightarrow> (ch # w) # ws))"

definition Split :: "string \<Rightarrow> string list" where
  "Split content = splitOn CHR '' '' content"

text \<open>\<open>User.Mention()\<close> of discordgo.\<close>

definition Mention :: "User \<Rightarrow> string" where
  "Mention u = ''<@'' @ uID u @ ''>''"

definition PermissionAdministrator :: "64 word" where
  "PermissionAdministrator = 0x8"

section \<open>The permission checker\<close>

text \<open>\<open>ctx.Reply\<close>: hand the text to the transport for the message's channel.\<close>

definition Reply :: "ctx \<Rightarrow> string \<Rightarrow> effect list \<Rightarrow> error option \<times> effect list" where
  "Reply c msg tr =
     (ChannelMessageSend (ctx_s c) tr (mChannelID (ctx_m c)) msg,
      tr @ [CallChannelMessageSend (mChannelID (ctx_m c)) msg])"

definition adminOnly :: string where
  "adminOnly = ''Sorry, feedbot requires the **ADMINISTRATOR** privilege!''"

text \<open>The loop of \<open>memberHasPermission\<close> over \<open>member.Roles\<close>.\<close>

fun rolesHavePermission ::
  "Session \<Rightarrow> string \<Rightarrow> 64 word \<Rightarrow> string list \<Rightarrow> bool \<times> error option" where
  "rolesHavePermission s guildID permission [] = (False, None)"
| "rolesHavePermission s guildID permission (roleID # roleIDs) =
     (case State_Role s guildID roleID of
        Inl err \<Rightarrow> (False, Some err)
      | Inr role \<Rightarrow>
          if rolePermissions role AND permission \<noteq> 0 then (True, None)
          else rolesHavePermission s guildID permission roleIDs)"

definition memberHasPermission ::
  "Session \<Rightarrow> string \<Rightarrow> string \<Rightarrow> 64 word \<Rightarrow> bool \<times> error option" where
  "memberHasPermission s guildID userID permission =
     (case State_Member s guildID userID of
        Inr member \<Rightarrow> rolesHavePermission s guildID permission (memRoles member)
      | Inl _ \<Rightarrow>
          (case GuildMember s guildID userID of
             Inl err \<Rightarrow> (False, Some err)
           | Inr member \<Rightarrow> rolesHavePermission s guildID permission (memRoles member)))"

definition checkPrivilege :: "ctx \<Rightarrow> effect list \<Rightarrow> (bool \<times> error option) \<times> effect list" where
  "checkPrivilege c tr =
     (case memberHasPermission (ctx_s c) (mGuildID (ctx_m c)) (uID (mAuthor (ctx_m c)))
             PermissionAdministrator of
        (ok, Some err) \<Rightarrow> ((False, Some err), tr)
      | (ok, None) \<Rightarrow>
          if \<not> ok then
            (case Reply c adminOnly tr of
               (Some err, tr') \<Rightarrow> ((False, Some err), tr')
             | (None, tr') \<Rightarrow> ((True, None), tr'))
          else ((True, None), tr))"

section \<open>The command handlers\<close>

definition helpText :: string where
  "helpText =
     ''\<newline>**feedbot**\<newline>\<newline>**commands:**\<newline>'' @
     ''- help: print this message\<newline>'' @
     ''- add <uri> [channel]: add an RSS feed by its URI; optionally specifying a channel where updates will be posted\<newline>'' @
     ''- remove <id>: remove an RSS feed by its ID (see the list command)\<newline>'' @
     ''- list: list the RSS feeds active in this guild, and any additional configuration options\<newline>'' @
     ''- set channel <id> [channel]: set the channel a given feed should write to; will assume current channel if unspecified\<newline>'' @
     ''- set contact <user|channel>: set the emergency contact for this guild; defaults to the server owner\<newline>'' @
     ''- set embed <on|off|inherit> [id]: enable or disable embeds for this guild; optionally specifying a feed to change this behavior for\<newline>'' @
     ''- set webhook <on|off|inherit> [id]: enable or disable webhooks for this guild, optionally specifying a feed to change this behavior for\<newline>'' @
     ''\<newline>the inherit flag may only be used when specifying a feed-specific overwrite!\<newline>'' @
     ''\<newline>**how it works:**\<newline>'' @
     ''every 60 minutes, feedbot will ping the feeds its users have specified. for feeds that have new content, feedbot\<newline>'' @
     ''will find every discord channel with a subscription, and send an update.\<newline>'' @
     ''\<newline>**permissions:**\<newline>'' @
     ''feedbot will only respect users who poesess the **ADMINISTRATOR** permission in a guild.discordgo\<newline>'' @
     ''\<newline>feedbot by default only requires **READ MESSAGES** and **SEND MESSAGES**.\<newline>'' @
     ''\<newline>if embeds are enabled for a feed, the **EMBED LINKS** permission must be given.\<newline>'' @
     ''if webhooks are enabled for a feed, the **MANAGE WEBHOOKS** permission must be given.\<newline>'' @
     ''\<newline>**emergency contact:**\<newline>'' @
     ''if a permission is missing, or a feed is broken, feedbot will notify the emergency contact.\<newline>''"

definition help_cmd :: commandHandler where
  "help_cmd c tr = apfst Returned (Reply c helpText tr)"

text \<open>
  \<open>add <uri> [channel]\<close>. The channel is either the early exit of the handler (the
  rejection reply, or the panic of the slice expression) or the channel to subscribe.
\<close>

definition add :: commandHandler where
  "add c tr =
     (case checkPrivilege c tr of
        ((ok, Some err), tr1) \<Rightarrow> (Returned (Some (WithStack err)), tr1)
      | ((ok, None), tr1) \<Rightarrow>
          if \<not> ok then (Returned None, tr1)
          else if length (ctx_args c) < 1 \<or> length (ctx_args c) > 2 then
            apfst Returned
              (Reply c ''**usage:** `add <uri> [channel]`; please omit spaces from arguments!'' tr1)
          else
            (case (if length (ctx_args c) = 2 then
                     (if \<not> channelRegex_MatchString (ctx_args c ! 1) then
                        Inl (apfst Returned
                          (Reply c ''when specifying a channel ID, please use a #channel mention!'' tr1))
                      else
                        (case slice (ctx_args c ! 1) 2 (int (length (ctx_args c ! 1)) - 1) of
                           None \<Rightarrow> Inl (Panicked SliceOutOfRange, tr1)
                         | Some ch \<Rightarrow> Inr ch))
                   else Inr (mChannelID (ctx_m c))) of
               Inl early \<Rightarrow> early
             | Inr channel \<Rightarrow>
                 (case GetOrCreateFeed (bot_c (ctx_bot c)) tr1 (ctx_args c ! 0) of
                    Inl err \<Rightarrow> (Returned (Some err), tr1 @ [CallGetOrCreateFeed (ctx_args c ! 0)])
                  | Inr feed \<Rightarrow>
                      (let tr2 = tr1 @ [CallGetOrCreateFeed (ctx_args c ! 0)];
                           tr3 = tr2 @ [CallAddSubscription channel (mGuildID (ctx_m c)) (feedID feed)]
                       in case AddSubscription (bot_c (ctx_bot c)) tr2 channel (mGuildID (ctx_m c))
                                 (feedID feed) of
                            (sub, Some err) \<Rightarrow>
                              if err = ErrSubExists then
                                apfst Returned
                                  (Reply c (''this subscription (#'' @ fmt_d (subID sub) @
                                            '') already exists!'') tr3)
                              else (Returned (Some err), tr3)
                          | (sub, None) \<Rightarrow>
                              apfst Returned
                                (Reply c (''subscription #'' @ fmt_d (subID sub) @ '' created!'')
                                   tr3)))))"

text \<open>
  \<open>remove <id>\<close>. The result of \<open>DestroySubscription\<close> is assigned to \<open>err\<close> and not
  read again: the handler goes on to the reply whatever it is.
\<close>

definition remove :: commandHandler where
  "remove c tr =
     (case checkPrivilege c tr of
        ((ok, Some err), tr1) \<Rightarrow> (Returned (Some err), tr1)
      | ((ok, None), tr1) \<Rightarrow>
          if \<not> ok then (Returned None, tr1)
          else if length (ctx_args c) \<noteq> 1 then
            apfst Returned
              (Reply c ''**usage:** `remove <id>`; please omit spaces from arguments?!'' tr1)
          else
            (case Atoi (ctx_args c ! 0) of
               None \<Rightarrow> apfst Returned (Reply c ''`id` must be a number!'' tr1)
             | Some sid \<Rightarrow>
                 (case GetSubscription (bot_c (ctx_bot c)) tr1 sid of
                    Inl err \<Rightarrow>
                      if err = ErrNoRows then
                        apfst Returned
                          (Reply c ''could not find a subscription with that ID, check the list again?'' tr1)
                      else (Returned (Some err), tr1)
                  | Inr sub \<Rightarrow>
                      if subGuildID sub \<noteq> mGuildID (ctx_m c) then
                        apfst Returned
                          (Reply c (''subscription #'' @ fmt_d sid @ '' does not exist in this guild.'') tr1)
                      else
                        apfst Returned
                          (Reply c (''subscription #'' @ fmt_d sid @ '' has been deleted.'')
                             (tr1 @ [CallDestroySubscription sid])))))"

text \<open>\<open>list\<close>: the header, then one row per subscription, flushed past 1900 bytes.\<close>

definition listHeader :: "GuildConfig \<Rightarrow> string" where
  "listHeader gc =
     (''**Guild Contact:** `'' @ gcContact gc @ ''`\<newline>**Embeds?** '' @ fmt_v (gcEmbeds gc) @
      ''\<newline>**Webhooks?** '' @ fmt_v (gcWebhooks gc) @ ''\<newline>\<newline>'') @
     ''**Sub ID | Channel | Feed URI | Embed? | Webhook?\<newline>\<newline>**''"

definition fmtBool :: "NullBool \<Rightarrow> string" where
  "fmtBool v = (if \<not> nbValid v then ''inherit'' else if nbBool v then ''on'' else ''false'')"

definition listRow :: "Subscription \<Rightarrow> string" where
  "listRow s =
     fmt_d (subID s) @ '' | <#'' @ subChannelID s @ ''> | `'' @ feedURI (subFeed s) @ ''` | '' @
     fmtBool (owEmbeds (subOverwrite s)) @ '' | '' @ fmtBool (owWebhooks (subOverwrite s)) @
     ''\<newline>''"

fun listLoop :: "ctx \<Rightarrow> Subscription list \<Rightarrow> string \<Rightarrow> effect list \<Rightarrow> error option outcome \<times> effect list" where
  "listLoop c [] b tr = apfst Returned (Reply c b tr)"
| "listLoop c (s # subs) b tr =
     (if length (b @ listRow s) > 1900 then
        (case Reply c (b @ listRow s) tr of
           (Some err, tr') \<Rightarrow> (Returned (Some err), tr')
         | (None, tr') \<Rightarrow> listLoop c subs [] tr')
      else listLoop c subs (b @ listRow s) tr)"

definition list :: commandHandler where
  "list c tr =
     (case checkPrivilege c tr of
        ((ok, Some err), tr1) \<Rightarrow> (Returned (Some err), tr1)
      | ((ok, None), tr1) \<Rightarrow>
          if \<not> ok then (Returned None, tr1)
          else
            (case GetGuildConfig (bot_c (ctx_bot c)) tr1 (mGuildID (ctx_m c)) of
               Inl err \<Rightarrow> (Returned (Some err), tr1)
             | Inr gc \<Rightarrow>
                 (case GetSubscriptions (bot_c (ctx_bot c)) tr1 (mGuildID (ctx_m c)) of
                    Inl err \<Rightarrow> (Returned (Some err), tr1)
                  | Inr subs \<Rightarrow> listLoop c subs (listHeader gc) tr1)))"

text \<open>\<open>set channel <id> [channel]\<close>.\<close>

definition setChannel :: commandHandler where
  "setChannel c tr =
     (if length (ctx_args c) < 2 then
        apfst Returned
          (Reply c ''**usage:** `set channel <id> [channel]`; please omit spaces from arguments?!'' tr)
      else
        (case (if length (ctx_args c) = 3 then
                 (if \<not> channelRegex_MatchString (ctx_args c ! 2) then
                    Inl (apfst Returned
                      (Reply c ''when specifying a channel ID, please use a #channel mention!'' tr))
                  else
                    (case slice (ctx_args c ! 2) 2 (int (length (ctx_args c ! 2)) - 1) of
                       None \<Rightarrow> Inl (Panicked SliceOutOfRange, tr)
                     | Some ch \<Rightarrow> Inr ch))
               else Inr (mChannelID (ctx_m c))) of
           Inl early \<Rightarrow> early
         | Inr channelID \<Rightarrow>
             (case Atoi (ctx_args c ! 1) of
                None \<Rightarrow> apfst Returned (Reply c ''`id` must be a number!'' tr)
              | Some sid \<Rightarrow>
                  (case GetSubscription (bot_c (ctx_bot c)) tr sid of
                     Inl err \<Rightarrow>
                       if err = ErrNoRows then
                         apfst Returned
                           (Reply c ''could not find a subscription with that ID, check the list again?'' tr)
                       else (Returned (Some err), tr)
                   | Inr sub \<Rightarrow>
                       if subGuildID sub \<noteq> mGuildID (ctx_m c) then
                         apfst Returned
                           (Reply c (''subscription #'' @ fmt_d sid @ '' does not exist in this guild.'') tr)
                       else
                         (case ModifySubscriptionChannel (bot_c (ctx_bot c)) tr sid channelID of
                            Some err \<Rightarrow>
                              (Returned (Some err), tr @ [CallModifySubscriptionChannel sid channelID])
                          | None \<Rightarrow>
                              apfst Returned
                                (Reply c (''subscription #'' @ fmt_d sid @ '' will now write to <#'' @
                                          channelID @ ''>'')
                                   (tr @ [CallModifySubscriptionChannel sid channelID])))))))"

text \<open>
  \<open>set contact <user|channel>\<close>. The contact is either the early exit of the handler
  or the tagged reference to store.
\<close>

definition setContact :: commandHandler where
  "setContact c tr =
     (if length (ctx_args c) \<noteq> 2 then
        apfst Returned
          (Reply c ''**usage:** `set contact <user|channel>`; please use a user mention, user id, or channel mention, and omit spaces.'' tr)
      else
        (case (if channelRegex_MatchString (ctx_args c ! 1) then
                 (case slice (ctx_args c ! 1) 2 (int (length (ctx_args c ! 1)) - 1) of
                    None \<Rightarrow> Inl (Panicked SliceOutOfRange, tr)
                  | Some ch \<Rightarrow> Inr (''c:'' @ ch))
               else if length (mMentions (ctx_m c)) > 0 then
                 Inr (''u:'' @ uID (mMentions (ctx_m c) ! 0))
               else if Atoi (ctx_args c ! 1) \<noteq> None then
                 Inr (''u:'' @ ctx_args c ! 1)
               else
                 Inl (apfst Returned
                   (Reply c ''contact must be a user mention, user id, or channel mention; not a user name or channel name.'' tr))) of
           Inl early \<Rightarrow> early
         | Inr contact \<Rightarrow>
             (case ModifyGuildContact (bot_c (ctx_bot c)) tr (mGuildID (ctx_m c)) contact of
                Some err \<Rightarrow>
                  (Returned (Some err), tr @ [CallModifyGuildContact (mGuildID (ctx_m c)) contact])
              | None \<Rightarrow>
                  apfst Returned
                    (Reply c ''the guild's contact has been changed.''
                       (tr @ [CallModifyGuildContact (mGuildID (ctx_m c)) contact])))))"

text \<open>
  The parser of the tri-state token, as \<open>setEmbed\<close> (lines 359 to 369) and
  \<open>setWebhook\<close> (lines 416 to 426) both write it; \<open>None\<close> is the branch that replies
  \<open>parameter must be one of on|off\<close>.
\<close>

definition parseFlag :: "string \<Rightarrow> NullBool option" where
  "parseFlag a =
     (if a = ''on'' then Some \<lparr>nbBool = True, nbValid = True\<rparr>
      else if a = ''off'' then Some \<lparr>nbBool = False, nbValid = True\<rparr>
      else if a = ''inherit'' then Some \<lparr>nbBool = False, nbValid = False\<rparr>
      else None)"

text \<open>
  \<open>set embed <on|off|inherit> [id]\<close>. The write is either an early exit of the
  handler or the calls made so far, after which the confirmation is sent.
\<close>

definition setEmbed :: commandHandler where
  "setEmbed c tr =
     (if length (ctx_args c) < 2 then
        apfst Returned (Reply c ''**usage:** `set embed <on|off|inherit> [id]`'' tr)
      else
        (case parseFlag (ctx_args c ! 1) of
           None \<Rightarrow> apfst Returned (Reply c ''parameter must be one of on|off'' tr)
         | Some val \<Rightarrow>
             (case (if length (ctx_args c) = 2 then
                      (if \<not> nbValid val then
                         Inl (apfst Returned
                           (Reply c ''`inherit` is only a valid flag on overwrites, please specify on|off'' tr))
                       else
                         (case ModifyGuildEmbeds (bot_c (ctx_bot c)) tr (mGuildID (ctx_m c)) (nbBool val) of
                            Some err \<Rightarrow>
                              Inl (Returned (Some err),
                                   tr @ [CallModifyGuildEmbeds (mGuildID (ctx_m c)) (nbBool val)])
                          | None \<Rightarrow> Inr (tr @ [CallModifyGuildEmbeds (mGuildID (ctx_m c)) (nbBool val)])))
                    else
                      (case Atoi (ctx_args c ! 2) of
                         None \<Rightarrow> Inl (apfst Returned (Reply c ''`id` must be a number!'' tr))
                       | Some sid \<Rightarrow>
                           (case GetSubscription (bot_c (ctx_bot c)) tr sid of
                              Inl err \<Rightarrow>
                                if err = ErrNoRows then
                                  Inl (apfst Returned
                                    (Reply c ''could not find a subscription with that ID, check the list again?'' tr))
                                else Inl (Returned (Some err), tr)
                            | Inr sub \<Rightarrow>
                                if subGuildID sub \<noteq> mGuildID (ctx_m c) then
                                  Inl (apfst Returned
                                    (Reply c (''subscription #'' @ fmt_d sid @
                                              '' does not exist in this guild.'') tr))
                                else
                                  (case ModifyOverwriteEmbeds (bot_c (ctx_bot c)) tr (subID sub) val of
                                     Some err \<Rightarrow>
                                       Inl (Returned (Some err),
                                            tr @ [CallModifyOverwriteEmbeds (subID sub) val])
                                   | None \<Rightarrow> Inr (tr @ [CallModifyOverwriteEmbeds (subID sub) val]))))) of
                Inl early \<Rightarrow> early
              | Inr tr1 \<Rightarrow>
                  if nbBool val then
                    apfst Returned
                      (Reply c ''feedbot will now post updates in this guild using embeds, unless overridden elsewhere.'' tr1)
                  else if nbValid val then
                    apfst Returned
                      (Reply c ''feedbot will no longer post updates in this guild using embeds, unless overridden elsewhere.'' tr1)
                  else
                    apfst Returned
                      (Reply c ''feedbot will default to the guild-wide behavior for embeds.'' tr1))))"

text \<open>\<open>set webhook <on|off> [id]\<close>.\<close>

definition setWebhook :: commandHandler where
  "setWebhook c tr =
     (if length (ctx_args c) < 2 then
        apfst Returned (Reply c ''**usage:** `set webhook <on|off> [id]`'' tr)
      else
        (case parseFlag (ctx_args c ! 1) of
           None \<Rightarrow> apfst Returned (Reply c ''parameter must be one of on|off'' tr)
         | Some val \<Rightarrow>
             (case (if length (ctx_args c) = 2 then
                      (if \<not> nbValid val then
                         Inl (apfst Returned
                           (Reply c ''`inherit` is only a valid flag on overwrites, please specify on|off'' tr))
                       else
                         (case ModifyGuildWebhooks (bot_c (ctx_bot c)) tr (mGuildID (ctx_m c)) (nbBool val) of
                            Some err \<Rightarrow>
                              Inl (Returned (Some err),
                                   tr @ [CallModifyGuildWebhooks (mGuildID (ctx_m c)) (nbBool val)])
                          | None \<Rightarrow> Inr (tr @ [CallModifyGuildWebhooks (mGuildID (ctx_m c)) (nbBool val)])))
                    else
                      (case Atoi (ctx_args c ! 2) of
                         None \<Rightarrow> Inl (apfst Returned (Reply c ''`id` must be a number!'' tr))
                       | Some sid \<Rightarrow>
                           (case GetSubscription (bot_c (ctx_bot c)) tr sid of
                              Inl err \<Rightarrow>
                                if err = ErrNoRows then
                                  Inl (apfst Returned
                                    (Reply c ''could not find a subscription with that ID, check the list again?'' tr))
                                else Inl (Returned (Some err), tr)
                            | Inr sub \<Rightarrow>
                                if subGuildID sub \<noteq> mGuildID (ctx_m c) then
                                  Inl (apfst Returned
                                    (Reply c (''subscription #'' @ fmt_d sid @
                                              '' does not exist in this guild.'') tr))
                                else
                                  (case ModifyOverwriteWebhooks (bot_c (ctx_bot c)) tr (subID sub) val of
                                     Some err \<Rightarrow>
                                       Inl (Returned (Some err),
                                            tr @ [CallModifyOverwriteWebhooks (subID sub) val])
                                   | None \<Rightarrow> Inr (tr @ [CallModifyOverwriteWebhooks (subID sub) val]))))) of
                Inl early \<Rightarrow> early
              | Inr tr1 \<Rightarrow>
                  if nbBool val then
                    apfst Returned
                      (Reply c ''feedbot will now post updates in this guild using webhooks, unless overridden elsewhere.'' tr1)
                  else if nbValid val then
                    apfst Returned
                      (Reply c ''feedbot will no longer post updates in this guild using webhooks, unless overridden elsewhere.'' tr1)
                  else
                    apfst Returned
                      (Reply c ''feedbot will default to the guild-wide behavior for webhooks.'' tr1))))"

text \<open>\<open>set <channel|contact|embed|webhook> [...]\<close>.\<close>

definition set_cmd :: commandHandler where
  "set_cmd c tr =
     (case checkPrivilege c tr of
        ((ok, Some err), tr1) \<Rightarrow> (Returned (Some err), tr1)
      | ((ok, None), tr1) \<Rightarrow>
          if \<not> ok then (Returned None, tr1)
          else if length (ctx_args c) = 0 then
            apfst Returned
              (Reply c ''**usage:** set <channel|contact|embed|webhook> ..., see help command.'' tr1)
          else if ctx_args c ! 0 = ''channel'' then setChannel c tr1
          else if ctx_args c ! 0 = ''contact'' then setContact c tr1
          else if ctx_args c ! 0 = ''embed'' then setEmbed c tr1
          else if ctx_args c ! 0 = ''webhook'' then setWebhook c tr1
          else
            apfst Returned
              (Reply c ''subcommand must be one of channel|contact|embed|webhook, see help command.'' tr1))"

text \<open>
  \<open>dbg~migrate\<close>. When the state cache answers with a nil guild and no error, the
  handler replies and goes on to read \<open>guild.OwnerID\<close>, which panics.
\<close>

definition dbgMigrate :: "globals \<Rightarrow> commandHandler" where
  "dbgMigrate g c tr =
     (if uID (mAuthor (ctx_m c)) \<noteq> owner g then (Returned None, tr)
      else
        (case State_Guild (ctx_s c) (mGuildID (ctx_m c)) of
           Inl err \<Rightarrow> (Returned (Some err), tr)
         | Inr None \<Rightarrow>
             (Panicked NilDereference, snd (Reply c ''couldn't find the guild not gonna try'' tr))
         | Inr (Some guild) \<Rightarrow>
             (case CreateGuildConfig (bot_c (ctx_bot c)) tr (gID guild) (''u:'' @ gOwnerID guild) of
                Some err \<Rightarrow>
                  (Returned (Some err), tr @ [CallCreateGuildConfig (gID guild) (''u:'' @ gOwnerID guild)])
              | None \<Rightarrow>
                  apfst Returned
                    (Reply c ''gotem''
                       (tr @ [CallCreateGuildConfig (gID guild) (''u:'' @ gOwnerID guild)])))))"

section \<open>The router\<close>

definition mux :: "globals \<Rightarrow> string \<Rightarrow> commandHandler option" where
  "mux g =
     [''help'' \<mapsto> help_cmd, ''add'' \<mapsto> add, ''remove'' \<mapsto> remove, ''list'' \<mapsto> list,
      ''set'' \<mapsto> set_cmd, ''dbg~migrate'' \<mapsto> dbgMigrate g]"

text \<open>
  \<open>onReady\<close>: the two assignments of the mention prefix come first, so they stand
  whether or not the application lookup succeeds; a failed lookup is \<open>panic(err)\<close>.
\<close>

definition onReady :: "globals \<Rightarrow> Session \<Rightarrow> Ready \<Rightarrow> unit outcome \<times> globals" where
  "onReady g s r =
     (case GetApplication s ''@me'' of
        Inl err \<Rightarrow>
          (Panicked (PanicError err),
           g\<lparr>mentionPrefix := Mention (rUser r), mentionPrefixLen := length (Mention (rUser r))\<rparr>)
      | Inr apps \<Rightarrow>
          (Returned (),
           g\<lparr>mentionPrefix := Mention (rUser r), mentionPrefixLen := length (Mention (rUser r)),
             owner := uID (appOwner apps)\<rparr>))"

text \<open>
  The deferred function of \<open>onMessageCreate\<close>: a panic of the handler is recovered,
  logged with the verb, and the event handler returns normally.
\<close>

definition recover :: "string \<Rightarrow> unit outcome \<times> effect list \<Rightarrow> unit outcome \<times> effect list" where
  "recover verb r =
     (case r of
        (Panicked p, tr) \<Rightarrow> (Returned (), tr @ [LogPanic verb p])
      | (Returned u, tr) \<Rightarrow> (Returned u, tr))"

definition onMessageCreate ::
  "globals \<Rightarrow> Bot \<Rightarrow> Session \<Rightarrow> MessageCreate \<Rightarrow> effect list \<Rightarrow> unit outcome \<times> effect list" where
  "onMessageCreate g b s m tr =
     (if uBot (mAuthor m) then (Returned (), tr)
      else
        (case (if HasPrefix (mContent m) (mentionPrefix g) then
                 Some (sliceFrom (mContent m) (mentionPrefixLen g))
               else if HasPrefix (mContent m) prefix then
                 Some (sliceFrom (mContent m) prefixLen)
               else None) of
           None \<Rightarrow> (Returned (), tr)
         | Some None \<Rightarrow> (Panicked SliceOutOfRange, tr)
         | Some (Some content) \<Rightarrow>
             if length (Split content) < 1 then (Returned (), tr)
             else
               (case mux g (Split content ! 0) of
                  None \<Rightarrow> (Returned (), tr)
                | Some f \<Rightarrow>
                    recover (Split content ! 0)
                      (case f \<lparr>ctx_bot = b, ctx_s = s, ctx_m = m,
                               ctx_args = (if length (Split content) > 1 then drop 1 (Split content) else [])\<rparr>
                              tr of
                         (Panicked p, tr') \<Rightarrow> (Panicked p, tr')
                       | (Returned (Some err), tr') \<Rightarrow>
                           (Returned (), tr' @ [LogErr (Split content ! 0) err])
                       | (Returned None, tr') \<Rightarrow> (Returned (), tr')))))"

section \<open>Parts of the handlers, named for the statements about them\<close>

text \<open>
  The end of \<open>setContact\<close> (lines 346 to 350): the write of the tagged reference, and
  the confirmation when the write succeeds.
\<close>

definition storeContact :: "ctx \<Rightarrow> string \<Rightarrow> effect list \<Rightarrow> error option outcome \<times> effect list" where
  "storeContact c contact tr =
     (case ModifyGuildContact (bot_c (ctx_bot c)) tr (mGuildID (ctx_m c)) contact of
        Some err \<Rightarrow>
          (Returned (Some err), tr @ [CallModifyGuildContact (mGuildID (ctx_m c)) contact])
      | None \<Rightarrow>
          apfst Returned
            (Reply c ''the guild's contact has been changed.''
               (tr @ [CallModifyGuildContact (mGuildID (ctx_m c)) contact])))"

text \<open>
  The channel ID that \<open>add\<close>, \<open>setChannel\<close> and \<open>setContact\<close> take from an accepted
  token \<open>t\<close>: the Go expression \<open>t[2 : len(t)-1]\<close> where it does not panic.
\<close>

definition channelOf :: "string \<Rightarrow> string" where
  "channelOf t = take (length t - 3) (drop 2 t)"

text \<open>The replies that the statements name.\<close>

definition notInGuild :: "int \<Rightarrow> string" where
  "notInGuild sid = ''subscription #'' @ fmt_d sid @ '' does not exist in this guild.''"

definition inheritRejected :: string where
  "inheritRejected = ''`inherit` is only a valid flag on overwrites, please specify on|off''"

definition contactRejected :: string where
  "contactRejected =
     ''contact must be a user mention, user id, or channel mention; not a user name or channel name.''"

section \<open>The role lookup as the specification words it\<close>

text \<open>
  The specification says that each role is resolved like the member: the state cache
  first, a live directory query on a miss, and a hard error only when both fail. The
  two definitions below follow those words, with the live role query as a parameter
  \<open>live\<close>; they are what \<open>rolesHavePermission\<close> and \<open>memberHasPermission\<close> are
  compared with.
\<close>

fun rolesHavePermission_spec ::
  "Session \<Rightarrow> (string \<Rightarrow> string \<Rightarrow> error + Role) \<Rightarrow> string \<Rightarrow> 64 word \<Rightarrow> string list \<Rightarrow>
   bool \<times> error option" where
  "rolesHavePermission_spec s live guildID permission [] = (False, None)"
| "rolesHavePermission_spec s live guildID permission (roleID # roleIDs) =
     (case (case State_Role s guildID roleID of
              Inr role \<Rightarrow> Inr role
            | Inl _ \<Rightarrow> live guildID roleID) of
        Inl err \<Rightarrow> (False, Some err)
      | Inr role \<Rightarrow>
          if rolePermissions role AND permission \<noteq> 0 then (True, None)
          else rolesHavePermission_spec s live guildID permission roleIDs)"

definition memberHasPermission_spec ::
  "Session \<Rightarrow> (string \<Rightarrow> string \<Rightarrow> error + Role) \<Rightarrow> string \<Rightarrow> string \<Rightarrow> 64 word \<Rightarrow>
   bool \<times> error option" where
  "memberHasPermission_spec s live guildID userID permission =
     (case State_Member s guildID userID of
        Inr member \<Rightarrow> rolesHavePermission_spec s live guildID permission (memRoles member)
      | Inl _ \<Rightarrow>
          (case GuildMember s guildID userID of
             Inl err \<Rightarrow> (False, Some err)
           | Inr member \<Rightarrow>
               rolesHavePermission_spec s live guildID permission (memRoles member)))"

section \<open>Concrete worlds\<close>

text \<open>
  A small platform and repository on which the handlers are run. Every member has the
  single role \<open>r1\<close> with the permission bits \<open>perms\<close>; the transport delivers every
  message; the repository holds subscription 7 in guild \<open>guild\<close>, and every mutating
  call answers \<open>failure\<close>.
\<close>

definition demoSession :: "64 word \<Rightarrow> Session" where
  "demoSession perms =
     \<lparr>State_Member = (\<lambda>g u. Inr \<lparr>memRoles = [''r1'']\<rparr>),
      GuildMember = (\<lambda>g u. Inl (ErrOther ''unknown member'')),
      State_Role = (\<lambda>g r. Inr \<lparr>rolePermissions = perms\<rparr>),
      State_Guild = (\<lambda>g. Inr None),
      GetApplication = (\<lambda>a. Inl (ErrOther ''no application'')),
      ChannelMessageSend = (\<lambda>tr ch msg. None)\<rparr>"

definition demoSub :: "int \<Rightarrow> string \<Rightarrow> Subscription" where
  "demoSub sid guild =
     \<lparr>subID = sid, subChannelID = ''c1'', subGuildID = guild,
      subFeed = \<lparr>feedID = 1, feedURI = ''https://example.com/feed.xml''\<rparr>,
      subOverwrite = \<lparr>owEmbeds = \<lparr>nbBool = False, nbValid = False\<rparr>,
                      owWebhooks = \<lparr>nbBool = False, nbValid = False\<rparr>\<rparr>\<rparr>"

definition demoController :: "string \<Rightarrow> error option \<Rightarrow> Controller" where
  "demoController guild failure =
     \<lparr>GetOrCreateFeed = (\<lambda>tr uri. Inr \<lparr>feedID = 1, feedURI = uri\<rparr>),
      AddSubscription = (\<lambda>tr ch g f. (demoSub 7 guild, failure)),
      GetSubscription = (\<lambda>tr sid. if sid = 7 then Inr (demoSub 7 guild) else Inl ErrNoRows),
      DestroySubscription = (\<lambda>tr sid. failure),
      GetSubscriptions = (\<lambda>tr g. Inr [demoSub 7 guild]),
      GetGuildConfig = (\<lambda>tr g. Inr \<lparr>gcContact = ''u:1'', gcEmbeds = True, gcWebhooks = False\<rparr>),
      ModifySubscriptionChannel = (\<lambda>tr sid ch. failure),
      ModifyGuildContact = (\<lambda>tr g ct. failure),
      ModifyGuildEmbeds = (\<lambda>tr g v. failure),
      ModifyGuildWebhooks = (\<lambda>tr g v. failure),
      ModifyOverwriteEmbeds = (\<lambda>tr sid v. failure),
      ModifyOverwriteWebhooks = (\<lambda>tr sid v. failure),
      CreateGuildConfig = (\<lambda>tr g ct. failure)\<rparr>"

definition demoMessage :: "string \<Rightarrow> User list \<Rightarrow> MessageCreate" where
  "demoMessage content mentions =
     \<lparr>mContent = content, mChannelID = ''c1'', mGuildID = ''g1'',
      mAuthor = \<lparr>uID = ''u1'', uBot = False\<rparr>, mMentions = mentions\<rparr>"

definition demoCtx :: "64 word \<Rightarrow> string \<Rightarrow> error option \<Rightarrow> string list \<Rightarrow> ctx" where
  "demoCtx perms guild failure as =
     \<lparr>ctx_bot = \<lparr>bot_c = demoController guild failure\<rparr>, ctx_s = demoSession perms,
      ctx_m = demoMessage [] [], ctx_args = as\<rparr>"

text \<open>A subscription whose row alone is longer than the threshold of \<open>list\<close>.\<close>

definition bigSub :: Subscription where
  "bigSub = (demoSub 7 ''g1'')\<lparr>subFeed := \<lparr>feedID = 1, feedURI = replicate 1900 (CHR ''a'')\<rparr>\<rparr>"

text \<open>A platform whose state cache does not hold the role \<open>r1\<close>.\<close>

definition coldSession :: Session where
  "coldSession = (demoSession 8)\<lparr>State_Role := (\<lambda>g r. Inl (ErrOther ''state cache miss''))\<rparr>"

section \<open>Evaluating the handlers\<close>

lemmas demo_defs =
  demoSession_def demoSub_def demoController_def demoMessage_def demoCtx_def coldSession_def
  bigSub_def

lemmas eval_defs =
  checkPrivilege_def memberHasPermission_def Reply_def PermissionAdministrator_def
  Atoi_def digitsVal_def isDigit_def fmt_d_def natDigits.simps

text \<open>
  Claim C1. A user who holds no role with the administrator bit and invokes a privileged
  handler is to get the fixed admin-required reply, \<open>checkPrivilege\<close> is to answer
  \<open>authorized = false\<close>, and the handler is to make no repository mutation. Run on a
  member whose only role has no permission bit, \<open>memberHasPermission\<close> answers false and
  the rejection is sent, but \<open>checkPrivilege\<close> ends in \<open>return true, nil\<close> on that path
  too: it answers true, and \<open>remove 7\<close> goes on to call \<open>DestroySubscription(7)\<close> and to
  report the deletion.
\<close>

theorem C1_nonadmin_remove_still_destroys:
  "memberHasPermission (demoSession 0) ''g1'' ''u1'' PermissionAdministrator = (False, None) \<and>
   checkPrivilege (demoCtx 0 ''g1'' None [''7'']) [] =
     ((True, None), [CallChannelMessageSend ''c1'' adminOnly]) \<and>
   remove (demoCtx 0 ''g1'' None [''7'']) [] =
     (Returned None,
      [CallChannelMessageSend ''c1'' adminOnly, CallDestroySubscription 7,
       CallChannelMessageSend ''c1'' ''subscription #7 has been deleted.''])"
  by (simp add: demo_defs eval_defs remove_def)

text \<open>
  Claim C2. Formatting the parse of a tri-state token is to give the token back. The
  parser maps \<open>off\<close> to the definite false value, and \<open>fmtBool\<close> prints that value as
  \<open>false\<close>, not \<open>off\<close>; the tokens \<open>on\<close> and \<open>inherit\<close> do come back.
\<close>

theorem C2_fmtBool_of_off_is_false:
  "parseFlag ''off'' = Some \<lparr>nbBool = False, nbValid = True\<rparr> \<and>
   fmtBool \<lparr>nbBool = False, nbValid = True\<rparr> = ''false'' \<and>
   map_option fmtBool (parseFlag ''off'') \<noteq> Some ''off'' \<and>
   map_option fmtBool (parseFlag ''on'') = Some ''on'' \<and>
   map_option fmtBool (parseFlag ''inherit'') = Some ''inherit''"
  by (simp add: parseFlag_def fmtBool_def)

text \<open>
  Claim C4. A repository failure is to reach the dispatch boundary as a hard error, be
  logged with the verb, and no success reply is to be sent; in particular \<open>remove\<close> is to
  return the error of \<open>DestroySubscription\<close>. Run by an administrator on a repository
  whose \<open>DestroySubscription\<close> fails, \<open>remove 7\<close> returns no error and sends the
  deletion message, and \<open>onMessageCreate\<close> writes no log line.
\<close>

theorem C4_remove_drops_DestroySubscription_error:
  "DestroySubscription (demoController ''g1'' (Some (ErrOther ''database is down''))) [] 7 =
     Some (ErrOther ''database is down'') \<and>
   remove (demoCtx 8 ''g1'' (Some (ErrOther ''database is down'')) [''7'']) [] =
     (Returned None,
      [CallDestroySubscription 7,
       CallChannelMessageSend ''c1'' ''subscription #7 has been deleted.'']) \<and>
   onMessageCreate initial_globals
       \<lparr>bot_c = demoController ''g1'' (Some (ErrOther ''database is down''))\<rparr>
       (demoSession 8) (demoMessage ''/feed:remove 7'' []) [] =
     (Returned (),
      [CallDestroySubscription 7,
       CallChannelMessageSend ''c1'' ''subscription #7 has been deleted.''])"
  by (simp add: demo_defs eval_defs remove_def onMessageCreate_def initial_globals_def
      HasPrefix_def prefix_def prefixLen_def sliceFrom_def Split_def mux_def recover_def)

section \<open>The permission checker: what is looked up where\<close>

text \<open>Roles that resolve in the state cache without the permission bit are passed over.\<close>

lemma rolesHavePermission_skip:
  "list_all (\<lambda>x. \<exists>role. State_Role s g x = Inr role \<and> rolePermissions role AND p = 0) pre \<Longrightarrow>
   rolesHavePermission s g p (pre @ rest) = rolesHavePermission s g p rest"
  by (induction pre) auto

text \<open>
  Claim C3, as stated, fails. On a platform whose state cache does not hold the member's
  role, \<open>memberHasPermission\<close> returns the cache's error, although a live query for the
  role (here one that would answer with an administrator role) is all the specification's
  wording needs to succeed: the role lookup has no fallback.
\<close>

theorem C3_role_cache_miss_is_hard_error:
  "memberHasPermission coldSession ''g1'' ''u1'' PermissionAdministrator =
     (False, Some (ErrOther ''state cache miss'')) \<and>
   memberHasPermission_spec coldSession (\<lambda>g r. Inr \<lparr>rolePermissions = 8\<rparr>) ''g1'' ''u1''
     PermissionAdministrator = (True, None)"
  by (simp add: demo_defs memberHasPermission_def memberHasPermission_spec_def
      PermissionAdministrator_def)

text \<open>
  Claim C3, amended. The member is looked up in the state cache first and by a live
  query on a miss, and the failure of both is a hard error. Each role is looked up in
  the state cache only: the roles are read in order, the first role carrying the
  permission bit authorizes, and a role that the cache cannot resolve before that is a
  hard error carrying the cache's error.
\<close>

theorem C3_member_falls_back_roles_do_not:
  "(\<forall>mem. State_Member s g u = Inr mem \<longrightarrow>
      memberHasPermission s g u p = rolesHavePermission s g p (memRoles mem)) \<and>
   (\<forall>e mem. State_Member s g u = Inl e \<and> GuildMember s g u = Inr mem \<longrightarrow>
      memberHasPermission s g u p = rolesHavePermission s g p (memRoles mem)) \<and>
   (\<forall>e e'. State_Member s g u = Inl e \<and> GuildMember s g u = Inl e' \<longrightarrow>
      memberHasPermission s g u p = (False, Some e')) \<and>
   (\<forall>pre r post e.
      list_all (\<lambda>x. \<exists>role. State_Role s g x = Inr role \<and> rolePermissions role AND p = 0) pre \<and>
      State_Role s g r = Inl e \<longrightarrow>
      rolesHavePermission s g p (pre @ r # post) = (False, Some e)) \<and>
   (\<forall>pre r post role.
      list_all (\<lambda>x. \<exists>role. State_Role s g x = Inr role \<and> rolePermissions role AND p = 0) pre \<and>
      State_Role s g r = Inr role \<and> rolePermissions role AND p \<noteq> 0 \<longrightarrow>
      rolesHavePermission s g p (pre @ r # post) = (True, None)) \<and>
   (\<forall>rs.
      list_all (\<lambda>x. \<exists>role. State_Role s g x = Inr role \<and> rolePermissions role AND p = 0) rs \<longrightarrow>
      rolesHavePermission s g p rs = (False, None))"
proof (intro conjI allI impI)
  fix rs
  assume "list_all (\<lambda>x. \<exists>role. State_Role s g x = Inr role \<and> rolePermissions role AND p = 0) rs"
  then show "rolesHavePermission s g p rs = (False, None)"
    using rolesHavePermission_skip [of s g p rs "[]"] by simp
qed (auto simp: memberHasPermission_def rolesHavePermission_skip)

theorem C3_member_falls_back_roles_do_not_witness:
  "memberHasPermission coldSession ''g1'' ''u1'' PermissionAdministrator =
     (False, Some (ErrOther ''state cache miss'')) \<and>
   memberHasPermission (demoSession 8) ''g1'' ''u1'' PermissionAdministrator = (True, None) \<and>
   memberHasPermission (demoSession 0) ''g1'' ''u1'' PermissionAdministrator = (False, None) \<and>
   memberHasPermission
     ((demoSession 8)\<lparr>State_Member := (\<lambda>g u. Inl (ErrOther ''state cache miss''))\<rparr>)
     ''g1'' ''u1'' PermissionAdministrator = (False, Some (ErrOther ''unknown member'')) \<and>
   memberHasPermission
     ((demoSession 8)\<lparr>State_Member := (\<lambda>g u. Inl (ErrOther ''state cache miss'')),
                      GuildMember := (\<lambda>g u. Inr \<lparr>memRoles = [''r1'']\<rparr>)\<rparr>)
     ''g1'' ''u1'' PermissionAdministrator = (True, None)"
proof (intro conjI)
  note t = C3_member_falls_back_roles_do_not [where g = "''g1''" and u = "''u1''" and p = PermissionAdministrator]
  show "memberHasPermission coldSession ''g1'' ''u1'' PermissionAdministrator =
     (False, Some (ErrOther ''state cache miss''))"
    using t [of coldSession]
    by (simp add: demo_defs PermissionAdministrator_def)
  show "memberHasPermission (demoSession 8) ''g1'' ''u1'' PermissionAdministrator = (True, None)"
    using t [of "demoSession 8"]
    by (simp add: demo_defs PermissionAdministrator_def)
  show "memberHasPermission (demoSession 0) ''g1'' ''u1'' PermissionAdministrator = (False, None)"
    using t [of "demoSession 0"]
    by (simp add: demo_defs PermissionAdministrator_def)
  show "memberHasPermission
     ((demoSession 8)\<lparr>State_Member := (\<lambda>g u. Inl (ErrOther ''state cache miss''))\<rparr>)
     ''g1'' ''u1'' PermissionAdministrator = (False, Some (ErrOther ''unknown member''))"
    using t [of "(demoSession 8)\<lparr>State_Member := (\<lambda>g u. Inl (ErrOther ''state cache miss''))\<rparr>"]
    by (simp add: demo_defs PermissionAdministrator_def)
  show "memberHasPermission
     ((demoSession 8)\<lparr>State_Member := (\<lambda>g u. Inl (ErrOther ''state cache miss'')),
                      GuildMember := (\<lambda>g u. Inr \<lparr>memRoles = [''r1'']\<rparr>)\<rparr>)
     ''g1'' ''u1'' PermissionAdministrator = (True, None)"
    using t [of "(demoSession 8)\<lparr>State_Member := (\<lambda>g u. Inl (ErrOther ''state cache miss'')),
                      GuildMember := (\<lambda>g u. Inr \<lparr>memRoles = [''r1'']\<rparr>)\<rparr>"]
    by (simp add: demo_defs PermissionAdministrator_def)
qed

section \<open>The channel pattern and the slice\<close>

text \<open>
  \<open>channelRegex_MatchString\<close> accepts exactly the strings that contain \<open><#\<close>, one or
  more digits and \<open>>\<close> somewhere; such a string has at least four bytes, so the slice
  expression of the handlers does not panic on it.
\<close>

lemma gt_not_digit: "\<not> isDigit (CHR ''>'')"
  by (simp add: isDigit_def)

lemma take_eq_appendD: "take n s = p \<Longrightarrow> s = p @ drop n s"
  by (metis append_take_drop_id)

lemma matchHere_iff:
  "matchHere s \<longleftrightarrow> (\<exists>ds post. s = ''<#'' @ ds @ ''>'' @ post \<and> ds \<noteq> [] \<and> list_all isDigit ds)"
proof
  assume m: "matchHere s"
  define r where "r = drop 2 s"
  from m have "take 2 s = ''<#''" unfolding matchHere_def by blast
  then have s: "s = ''<#'' @ r"
    unfolding r_def by (rule take_eq_appendD)
  from m have ne: "dropWhile isDigit r \<noteq> r" and gt: "take 1 (dropWhile isDigit r) = ''>''"
    unfolding matchHere_def r_def by blast+
  from gt have rest: "dropWhile isDigit r = ''>'' @ drop 1 (dropWhile isDigit r)"
    by (rule take_eq_appendD)
  have "r = takeWhile isDigit r @ dropWhile isDigit r" by simp
  then have "r = takeWhile isDigit r @ ''>'' @ drop 1 (dropWhile isDigit r)"
    using rest by presburger
  then have 1: "s = ''<#'' @ takeWhile isDigit r @ ''>'' @ drop 1 (dropWhile isDigit r)"
    using s by presburger
  from ne have 2: "takeWhile isDigit r \<noteq> []"
    by (cases r) (auto split: if_splits)
  have 3: "list_all isDigit (takeWhile isDigit r)"
    unfolding list_all_iff using set_takeWhileD by fast
  from 1 2 3 show "\<exists>ds post. s = ''<#'' @ ds @ ''>'' @ post \<and> ds \<noteq> [] \<and> list_all isDigit ds"
    by blast
next
  assume "\<exists>ds post. s = ''<#'' @ ds @ ''>'' @ post \<and> ds \<noteq> [] \<and> list_all isDigit ds"
  then obtain ds post where s: "s = ''<#'' @ ds @ ''>'' @ post" and ne: "ds \<noteq> []"
    and d: "list_all isDigit ds" by blast
  from d have dw: "dropWhile isDigit (ds @ CHR ''>'' # post) = CHR ''>'' # post"
    by (simp add: dropWhile_append3 gt_not_digit list_all_iff)
  have "length (CHR ''>'' # post) \<noteq> length (ds @ CHR ''>'' # post)" using ne by simp
  then have "CHR ''>'' # post \<noteq> ds @ CHR ''>'' # post" by fastforce
  with dw show "matchHere s" unfolding matchHere_def s by simp
qed

lemma channelRegex_MatchString_iff:
  "channelRegex_MatchString t \<longleftrightarrow>
   (\<exists>pre ds post. t = pre @ ''<#'' @ ds @ ''>'' @ post \<and> ds \<noteq> [] \<and> list_all isDigit ds)"
proof (induction t)
  case Nil
  then show ?case by simp
next
  case (Cons ch cs)
  show ?case
  proof
    assume "channelRegex_MatchString (ch # cs)"
    then consider "matchHere (ch # cs)" | "channelRegex_MatchString cs" by auto
    then show "\<exists>pre ds post. ch # cs = pre @ ''<#'' @ ds @ ''>'' @ post \<and> ds \<noteq> [] \<and> list_all isDigit ds"
    proof cases
      case 1
      then obtain ds post where "ch # cs = ''<#'' @ ds @ ''>'' @ post" "ds \<noteq> []" "list_all isDigit ds"
        unfolding matchHere_iff by blast
      then have "ch # cs = [] @ ''<#'' @ ds @ ''>'' @ post \<and> ds \<noteq> [] \<and> list_all isDigit ds"
        by (simp only: append_Nil simp_thms)
      then show ?thesis by blast
    next
      case 2
      then obtain pre ds post where "cs = pre @ ''<#'' @ ds @ ''>'' @ post" "ds \<noteq> []" "list_all isDigit ds"
        using Cons.IH by blast
      then have "ch # cs = (ch # pre) @ ''<#'' @ ds @ ''>'' @ post \<and> ds \<noteq> [] \<and> list_all isDigit ds"
        by (simp only: append_Cons simp_thms)
      then show ?thesis by blast
    qed
  next
    assume "\<exists>pre ds post. ch # cs = pre @ ''<#'' @ ds @ ''>'' @ post \<and> ds \<noteq> [] \<and> list_all isDigit ds"
    then obtain pre ds post where t: "ch # cs = pre @ ''<#'' @ ds @ ''>'' @ post"
      and ne: "ds \<noteq> []" and d: "list_all isDigit ds" by blast
    show "channelRegex_MatchString (ch # cs)"
    proof (cases pre)
      case Nil
      with t have "ch # cs = ''<#'' @ ds @ ''>'' @ post" by (simp only: append_Nil)
      with ne d have "matchHere (ch # cs)" unfolding matchHere_iff by blast
      then show ?thesis by simp
    next
      case (Cons p ps)
      with t have "cs = ps @ ''<#'' @ ds @ ''>'' @ post" by simp
      with ne d have "channelRegex_MatchString cs" using Cons.IH by blast
      then show ?thesis by simp
    qed
  qed
qed

lemma match_length: "channelRegex_MatchString t \<Longrightarrow> 4 \<le> length t"
proof -
  assume "channelRegex_MatchString t"
  then obtain pre ds post where t: "t = pre @ ''<#'' @ ds @ ''>'' @ post" and ne: "ds \<noteq> []"
    unfolding channelRegex_MatchString_iff by blast
  from ne have "1 \<le> length ds" by (cases ds) simp_all
  then show ?thesis unfolding t by simp
qed

lemma match_slice:
  "channelRegex_MatchString t \<Longrightarrow> slice t 2 (int (length t) - 1) = Some (channelOf t)"
proof -
  assume "channelRegex_MatchString t"
  then have l: "4 \<le> length t" by (rule match_length)
  then have "nat (int (length t) - 1) - nat 2 = length t - 3" by simp
  with l show ?thesis by (simp add: slice_def channelOf_def)
qed

lemma channelOf_eq_iff:
  "channelOf (pre @ ''<#'' @ ds @ ''>'' @ post) = ds \<longleftrightarrow> pre = [] \<and> post = []"
proof
  assume e: "channelOf (pre @ ''<#'' @ ds @ ''>'' @ post) = ds"
  have "length (channelOf (pre @ ''<#'' @ ds @ ''>'' @ post)) = length pre + length ds + length post"
    by (simp add: channelOf_def)
  with e have "length pre + length post = 0" by simp
  then show "pre = [] \<and> post = []" by simp
next
  assume "pre = [] \<and> post = []"
  then show "channelOf (pre @ ''<#'' @ ds @ ''>'' @ post) = ds" by (simp add: channelOf_def)
qed

section \<open>Validation replies of the setters and of remove\<close>

lemma Reply_args [simp]: "Reply (c\<lparr>ctx_args := a\<rparr>) msg tr = Reply c msg tr"
  by (simp add: Reply_def)

lemma checkPrivilege_args [simp]: "checkPrivilege (c\<lparr>ctx_args := a\<rparr>) tr = checkPrivilege c tr"
  by (simp add: checkPrivilege_def split: prod.split option.split)

lemma parseFlag_inherit [simp]: "parseFlag ''inherit'' = Some \<lparr>nbBool = False, nbValid = False\<rparr>"
  by (simp add: parseFlag_def)

lemma demo_admin_privilege: "checkPrivilege (demoCtx 8 guild failure as) [] = ((True, None), [])"
  by (simp add: demo_defs eval_defs)

lemma demoCtx_args: "(demoCtx perms guild failure as)\<lparr>ctx_args := bs\<rparr> = demoCtx perms guild failure bs"
  by (simp add: demoCtx_def)

lemma match_1234: "channelRegex_MatchString ''<#1234>''"
  by (simp add: matchHere_def isDigit_def)

text \<open>
  Claim C6. For both setting names, \<open>set embed inherit\<close> and \<open>set webhook inherit\<close>
  with no subscription ID (two arguments) are rejected with the corrective reply: once
  the privilege check has let the command through, the only call made is the reply, so
  no repository write occurs and the GuildConfig is unchanged, and the handler returns
  what the transport answered for that reply, which is no error when the reply is
  delivered. The same holds of \<open>setEmbed\<close> and \<open>setWebhook\<close> themselves.
\<close>

theorem C6_inherit_without_id_is_rejected:
  assumes args: "ctx_args c = [setting, ''inherit'']"
    and setting: "setting = ''embed'' \<or> setting = ''webhook''"
    and priv: "checkPrivilege c tr = ((True, None), tr1)"
    and transport: "ChannelMessageSend (ctx_s c) tr1 (mChannelID (ctx_m c)) inheritRejected = e"
  shows
    "set_cmd c tr = (Returned e, tr1 @ [CallChannelMessageSend (mChannelID (ctx_m c)) inheritRejected]) \<and>
     setEmbed c tr1 = (Returned e, tr1 @ [CallChannelMessageSend (mChannelID (ctx_m c)) inheritRejected]) \<and>
     setWebhook c tr1 = (Returned e, tr1 @ [CallChannelMessageSend (mChannelID (ctx_m c)) inheritRejected])"
proof -
  have em: "setEmbed c tr1 = (Returned e, tr1 @ [CallChannelMessageSend (mChannelID (ctx_m c)) inheritRejected])"
    using args transport by (simp add: setEmbed_def Reply_def inheritRejected_def)
  have wh: "setWebhook c tr1 = (Returned e, tr1 @ [CallChannelMessageSend (mChannelID (ctx_m c)) inheritRejected])"
    using args transport by (simp add: setWebhook_def Reply_def inheritRejected_def)
  from setting have s: "set_cmd c tr = (Returned e, tr1 @ [CallChannelMessageSend (mChannelID (ctx_m c)) inheritRejected])"
  proof
    assume "setting = ''embed''"
    with args priv em show ?thesis by (simp add: set_cmd_def)
  next
    assume "setting = ''webhook''"
    with args priv wh show ?thesis by (simp add: set_cmd_def)
  qed
  from s em wh show ?thesis by simp
qed

theorem C6_inherit_without_id_is_rejected_witness:
  "set_cmd (demoCtx 8 ''g1'' None [''embed'', ''inherit'']) [] =
     (Returned None, [CallChannelMessageSend ''c1'' inheritRejected]) \<and>
   set_cmd (demoCtx 8 ''g1'' None [''webhook'', ''inherit'']) [] =
     (Returned None, [CallChannelMessageSend ''c1'' inheritRejected])"
proof
  show "set_cmd (demoCtx 8 ''g1'' None [''embed'', ''inherit'']) [] =
     (Returned None, [CallChannelMessageSend ''c1'' inheritRejected])"
    using C6_inherit_without_id_is_rejected [of "demoCtx 8 ''g1'' None [''embed'', ''inherit'']" "''embed''" "[]" "[]" None]
      demo_admin_privilege
    by (simp add: demo_defs)
  show "set_cmd (demoCtx 8 ''g1'' None [''webhook'', ''inherit'']) [] =
     (Returned None, [CallChannelMessageSend ''c1'' inheritRejected])"
    using C6_inherit_without_id_is_rejected [of "demoCtx 8 ''g1'' None [''webhook'', ''inherit'']" "''webhook''" "[]" "[]" None]
      demo_admin_privilege
    by (simp add: demo_defs)
qed

text \<open>
  Claim C5. A subscription of another guild, named by its ID in \<open>remove\<close>,
  \<open>set channel\<close> (with or without a channel mention), \<open>set embed\<close> or \<open>set webhook\<close>
  (with a valid flag): once the privilege check has let the command through, the handler
  replies that the subscription does not exist in this guild, makes no repository call
  that writes, and returns what the transport answered for that reply (no error when the
  reply is delivered).
\<close>

theorem C5_cross_guild_id_is_rejected:
  assumes priv: "checkPrivilege c tr = ((True, None), tr1)"
    and idtok: "Atoi idtok = Some sid"
    and sub: "GetSubscription (bot_c (ctx_bot c)) tr1 sid = Inr sub"
    and other: "subGuildID sub \<noteq> mGuildID (ctx_m c)"
    and flag: "flag = ''on'' \<or> flag = ''off'' \<or> flag = ''inherit''"
    and chtok: "channelRegex_MatchString chtok"
    and transport: "ChannelMessageSend (ctx_s c) tr1 (mChannelID (ctx_m c)) (notInGuild sid) = e"
  shows
    "remove (c\<lparr>ctx_args := [idtok]\<rparr>) tr =
       (Returned e, tr1 @ [CallChannelMessageSend (mChannelID (ctx_m c)) (notInGuild sid)]) \<and>
     set_cmd (c\<lparr>ctx_args := [''channel'', idtok]\<rparr>) tr =
       (Returned e, tr1 @ [CallChannelMessageSend (mChannelID (ctx_m c)) (notInGuild sid)]) \<and>
     set_cmd (c\<lparr>ctx_args := [''channel'', idtok, chtok]\<rparr>) tr =
       (Returned e, tr1 @ [CallChannelMessageSend (mChannelID (ctx_m c)) (notInGuild sid)]) \<and>
     set_cmd (c\<lparr>ctx_args := [''embed'', flag, idtok]\<rparr>) tr =
       (Returned e, tr1 @ [CallChannelMessageSend (mChannelID (ctx_m c)) (notInGuild sid)]) \<and>
     set_cmd (c\<lparr>ctx_args := [''webhook'', flag, idtok]\<rparr>) tr =
       (Returned e, tr1 @ [CallChannelMessageSend (mChannelID (ctx_m c)) (notInGuild sid)])"
proof -
  from flag obtain val where val: "parseFlag flag = Some val"
    by (auto simp: parseFlag_def)
  note sl = match_slice [OF chtok]
  have 1: "remove (c\<lparr>ctx_args := [idtok]\<rparr>) tr =
       (Returned e, tr1 @ [CallChannelMessageSend (mChannelID (ctx_m c)) (notInGuild sid)])"
    using priv idtok sub other transport by (simp add: remove_def Reply_def notInGuild_def)
  have 2: "setChannel (c\<lparr>ctx_args := [''channel'', idtok]\<rparr>) tr1 =
       (Returned e, tr1 @ [CallChannelMessageSend (mChannelID (ctx_m c)) (notInGuild sid)])"
    using idtok sub other transport by (simp add: setChannel_def Reply_def notInGuild_def)
  have 3: "setChannel (c\<lparr>ctx_args := [''channel'', idtok, chtok]\<rparr>) tr1 =
       (Returned e, tr1 @ [CallChannelMessageSend (mChannelID (ctx_m c)) (notInGuild sid)])"
    using idtok sub other chtok sl transport by (simp add: setChannel_def Reply_def notInGuild_def)
  have 4: "setEmbed (c\<lparr>ctx_args := [''embed'', flag, idtok]\<rparr>) tr1 =
       (Returned e, tr1 @ [CallChannelMessageSend (mChannelID (ctx_m c)) (notInGuild sid)])"
    using idtok sub other val transport by (simp add: setEmbed_def Reply_def notInGuild_def)
  have 5: "setWebhook (c\<lparr>ctx_args := [''webhook'', flag, idtok]\<rparr>) tr1 =
       (Returned e, tr1 @ [CallChannelMessageSend (mChannelID (ctx_m c)) (notInGuild sid)])"
    using idtok sub other val transport by (simp add: setWebhook_def Reply_def notInGuild_def)
  from priv 2 have s2: "set_cmd (c\<lparr>ctx_args := [''channel'', idtok]\<rparr>) tr =
       (Returned e, tr1 @ [CallChannelMessageSend (mChannelID (ctx_m c)) (notInGuild sid)])"
    by (simp add: set_cmd_def)
  from priv 3 have s3: "set_cmd (c\<lparr>ctx_args := [''channel'', idtok, chtok]\<rparr>) tr =
       (Returned e, tr1 @ [CallChannelMessageSend (mChannelID (ctx_m c)) (notInGuild sid)])"
    by (simp add: set_cmd_def)
  from priv 4 have s4: "set_cmd (c\<lparr>ctx_args := [''embed'', flag, idtok]\<rparr>) tr =
       (Returned e, tr1 @ [CallChannelMessageSend (mChannelID (ctx_m c)) (notInGuild sid)])"
    by (simp add: set_cmd_def)
  from priv 5 have s5: "set_cmd (c\<lparr>ctx_args := [''webhook'', flag, idtok]\<rparr>) tr =
       (Returned e, tr1 @ [CallChannelMessageSend (mChannelID (ctx_m c)) (notInGuild sid)])"
    by (simp add: set_cmd_def)
  from 1 s2 s3 s4 s5 show ?thesis by blast
qed

theorem C5_cross_guild_id_is_rejected_witness:
  "remove (demoCtx 8 ''g2'' None [''7'']) [] =
     (Returned None, [CallChannelMessageSend ''c1'' (notInGuild 7)]) \<and>
   set_cmd (demoCtx 8 ''g2'' None [''channel'', ''7'']) [] =
     (Returned None, [CallChannelMessageSend ''c1'' (notInGuild 7)]) \<and>
   set_cmd (demoCtx 8 ''g2'' None [''channel'', ''7'', ''<#1234>'']) [] =
     (Returned None, [CallChannelMessageSend ''c1'' (notInGuild 7)]) \<and>
   set_cmd (demoCtx 8 ''g2'' None [''embed'', ''inherit'', ''7'']) [] =
     (Returned None, [CallChannelMessageSend ''c1'' (notInGuild 7)]) \<and>
   set_cmd (demoCtx 8 ''g2'' None [''webhook'', ''inherit'', ''7'']) [] =
     (Returned None, [CallChannelMessageSend ''c1'' (notInGuild 7)])"
proof -
  have a: "Atoi ''7'' = Some 7"
    by (simp add: Atoi_def digitsVal_def isDigit_def)
  have g: "GetSubscription (bot_c (ctx_bot (demoCtx 8 ''g2'' None []))) [] 7 = Inr (demoSub 7 ''g2'')"
    by (simp add: demo_defs)
  have o: "subGuildID (demoSub 7 ''g2'') \<noteq> mGuildID (ctx_m (demoCtx 8 ''g2'' None []))"
    by (simp add: demo_defs)
  have t: "ChannelMessageSend (ctx_s (demoCtx 8 ''g2'' None [])) []
             (mChannelID (ctx_m (demoCtx 8 ''g2'' None []))) (notInGuild 7) = None"
    by (simp add: demo_defs)
  have c: "mChannelID (ctx_m (demoCtx 8 ''g2'' None [])) = ''c1''"
    by (simp add: demo_defs)
  show ?thesis
    using C5_cross_guild_id_is_rejected [OF demo_admin_privilege a g o _ match_1234 t, of "''inherit''"]
    by (simp only: demoCtx_args c append_Nil simp_thms)
qed

end
